theory Spec2Isabelle
  imports Complex_Main
begin

section \<open>The wallet store (src/index.js)\<close>

text \<open>
  The store is the JSON array of \<open>wallets.json\<close>, read whole by \<open>loadWallets\<close> and
  written whole by \<open>saveWallets\<close>. A stored record has the three fields the source writes.
\<close>

record wallet =
  name :: string
  publicKey :: string
  privateKey :: string


section \<open>Import: validation of the file's records (\<open>importWallets\<close>, first half)\<close>

text \<open>
  The import file is a JSON array. An element is \<open>null\<close> (here \<open>None\<close>) or an object
  with the fields \<open>name\<close>, \<open>publicKey\<close> and \<open>privateKey\<close>. The model covers names and
  addresses that are absent or text, and secrets that are absent, text, or another value
  that JavaScript takes as true and that has no \<open>includes\<close> method (a number other than
  zero, \<open>true\<close>, an object). JavaScript's truth test \<open>!wallet.name\<close> holds for an absent
  field and for the empty text.
\<close>

datatype secret_field = NoSecret | SecretText string | SecretOther

record imported_wallet =
  name_field :: "string option"
  publicKey_field :: "string option"
  privateKey_field :: secret_field

definition truthy :: "string option \<Rightarrow> bool" where
  "truthy v = (case v of None \<Rightarrow> False | Some s \<Rightarrow> s \<noteq> [])"

definition truthy_secret :: "secret_field \<Rightarrow> bool" where
  "truthy_secret v =
     (case v of NoSecret \<Rightarrow> False | SecretText s \<Rightarrow> s \<noteq> [] | SecretOther \<Rightarrow> True)"

datatype format = Standard | Keyonly | Unknown

text \<open>The format is detected once, from the first element (\<open>importedWallets[0] || {}\<close>).\<close>

definition detect_format :: "imported_wallet option list \<Rightarrow> format" where
  "detect_format importedWallets =
     (let sampleWallet =
            (case importedWallets of
               Some w # _ \<Rightarrow> w
             | _ \<Rightarrow> \<lparr>name_field = None, publicKey_field = None, privateKey_field = NoSecret\<rparr>)
      in if truthy (name_field sampleWallet) \<and> truthy (publicKey_field sampleWallet)
            \<and> truthy_secret (privateKey_field sampleWallet) then Standard
         else if truthy (publicKey_field sampleWallet)
            \<and> truthy_secret (privateKey_field sampleWallet)
         then Keyonly
         else Unknown)"

text \<open>
  The libraries the importer calls are outside the repository and are parameters of the
  model: \<open>base64Decode\<close> (base64-arraybuffer), \<open>bs58.encode\<close> and \<open>bs58.decode\<close>, and
  \<open>Keypair.fromSecretKey\<close> followed by \<open>publicKey.toString()\<close>. A call that throws returns
  \<open>Inl\<close> with the error's message.
\<close>

record libs =
  base64Decode :: "string \<Rightarrow> string + nat list"
  bs58_encode :: "nat list \<Rightarrow> string"
  bs58_decode :: "string \<Rightarrow> string + nat list"
  fromSecretKey :: "nat list \<Rightarrow> string + string"

text \<open>The lines the importer prints about a record, one constructor per message.\<close>

datatype report =
    MissingFields nat
  | UnknownFormat nat
  | ConvertError nat string
  | KeyMismatch string string string
  | FixingKey string
  | SkippingMismatch string
  | InvalidPrivateKey string string

text \<open>
  The decimal text of a number, as the template literal \<open>`imported_wallet${i + 1}`\<close>
  writes it: the digits are produced from the last one, in front of what is already there.
\<close>

function decimal_text :: "nat \<Rightarrow> string \<Rightarrow> string" where
  "decimal_text n suffix =
     (let text = char_of (of_char CHR ''0'' + n mod 10 :: nat) # suffix
      in if n < 10 then text else decimal_text (n div 10) text)"
  by pat_completeness auto
termination
  by (relation "measure (\<lambda>(n, suffix). n)") auto

declare decimal_text.simps [simp del]

definition number_text :: "nat \<Rightarrow> string" where
  "number_text n = decimal_text n []"

definition includes_chr :: "string \<Rightarrow> char \<Rightarrow> bool" where
  "includes_chr s c \<longleftrightarrow> c \<in> set s"

text \<open>
  The object \<open>processedWallet\<close> that the loop body builds; its secret is still whatever
  the file held when the format is the standard one.
\<close>

record processed_wallet =
  p_name :: string
  p_publicKey :: string
  p_privateKey :: secret_field

text \<open>
  The first half of the loop body: the element is shaped according to the file's format.
  In a key-only file a missing name is generated from the position, and a secret that
  contains \<open>+\<close>, \<open>/\<close> or \<open>=\<close> is taken as base64 and re-encoded as base58; when the
  conversion throws, the secret is used as it is. Reading a field of \<open>null\<close>, and calling
  \<open>includes\<close> on a secret that has no such method, throw a \<open>TypeError\<close> outside every
  inner \<open>try\<close>: the result is then \<open>Inl\<close> with the message.
\<close>

definition shape_wallet :: "libs \<Rightarrow> format \<Rightarrow> nat \<Rightarrow> imported_wallet option
    \<Rightarrow> string + (report list \<times> processed_wallet option)" where
  "shape_wallet env fmt i entry =
     (case fmt of
        Standard \<Rightarrow>
          (case entry of
             None \<Rightarrow> Inl ''Cannot read properties of null''
           | Some wallet \<Rightarrow>
               if \<not> truthy (name_field wallet) \<or> \<not> truthy (publicKey_field wallet)
                  \<or> \<not> truthy_secret (privateKey_field wallet)
               then Inr ([MissingFields i], None)
               else Inr ([], Some \<lparr>p_name = the (name_field wallet),
                                    p_publicKey = the (publicKey_field wallet),
                                    p_privateKey = privateKey_field wallet\<rparr>))
      | Keyonly \<Rightarrow>
          (case entry of
             None \<Rightarrow> Inl ''Cannot read properties of null''
           | Some wallet \<Rightarrow>
               if \<not> truthy (publicKey_field wallet) \<or> \<not> truthy_secret (privateKey_field wallet)
               then Inr ([MissingFields i], None)
               else
                 (let nm = (if truthy (name_field wallet) then the (name_field wallet)
                            else ''imported_wallet'' @ number_text (i + 1))
                  in case privateKey_field wallet of
                       SecretText key \<Rightarrow>
                         (let (reports, privateKeyBase58) =
                                (if includes_chr key CHR ''+'' \<or> includes_chr key CHR ''/''
                                    \<or> includes_chr key CHR ''=''
                                 then (case base64Decode env key of
                                         Inr privateKeyUint8Array \<Rightarrow>
                                           ([], bs58_encode env privateKeyUint8Array)
                                       | Inl message \<Rightarrow> ([ConvertError (i + 1) message], key))
                                 else ([], key))
                          in Inr (reports, Some \<lparr>p_name = nm,
                                                  p_publicKey = the (publicKey_field wallet),
                                                  p_privateKey = SecretText privateKeyBase58\<rparr>))
                     | _ \<Rightarrow> Inl ''wallet.privateKey.includes is not a function''))
      | Unknown \<Rightarrow> Inr ([UnknownFormat i], None))"

text \<open>
  The second half of the loop body, inside its own \<open>try\<close>: the secret must decode as
  base58 and yield a keypair; when the derived public key differs from the stored one, the
  record is skipped, or, with \<open>--fix-public-keys\<close>, stored with the derived key.
  \<open>bs58.decode\<close> throws on a value that is not text.
\<close>

definition verify_key :: "libs \<Rightarrow> bool \<Rightarrow> wallet \<Rightarrow> report list \<times> wallet option" where
  "verify_key env fixPublicKeys processedWallet =
     (case bs58_decode env (privateKey processedWallet) of
        Inl message \<Rightarrow> ([InvalidPrivateKey (name processedWallet) message], None)
      | Inr privateKeyBuffer \<Rightarrow>
          (case fromSecretKey env privateKeyBuffer of
             Inl message \<Rightarrow> ([InvalidPrivateKey (name processedWallet) message], None)
           | Inr derived \<Rightarrow>
               if derived \<noteq> publicKey processedWallet then
                 (if fixPublicKeys
                  then ([KeyMismatch (name processedWallet) (publicKey processedWallet) derived,
                         FixingKey (name processedWallet)],
                        Some (processedWallet\<lparr>publicKey := derived\<rparr>))
                  else ([KeyMismatch (name processedWallet) (publicKey processedWallet) derived,
                         SkippingMismatch (name processedWallet)],
                        None))
               else ([], Some processedWallet)))"

definition verify_wallet :: "libs \<Rightarrow> bool \<Rightarrow> processed_wallet \<Rightarrow> report list \<times> wallet option" where
  "verify_wallet env fixPublicKeys processedWallet =
     (case p_privateKey processedWallet of
        SecretText key \<Rightarrow>
          verify_key env fixPublicKeys
            \<lparr>name = p_name processedWallet, publicKey = p_publicKey processedWallet,
             privateKey = key\<rparr>
      | _ \<Rightarrow> ([InvalidPrivateKey (p_name processedWallet) ''Expected String''], None))"

definition process_wallet :: "libs \<Rightarrow> bool \<Rightarrow> format \<Rightarrow> nat \<Rightarrow> imported_wallet option
    \<Rightarrow> string + (report list \<times> wallet option)" where
  "process_wallet env fixPublicKeys fmt i entry =
     (case shape_wallet env fmt i entry of
        Inl message \<Rightarrow> Inl message
      | Inr (reports, None) \<Rightarrow> Inr (reports, None)
      | Inr (reports, Some processedWallet) \<Rightarrow>
          (case verify_wallet env fixPublicKeys processedWallet of
             (reports', result) \<Rightarrow> Inr (reports @ reports', result)))"

text \<open>
  The loop \<open>for (let i = 0; i < importedWallets.length; i++)\<close>, with the list
  \<open>processedWallets\<close> and the printed lines as its state. An error thrown outside the
  inner \<open>try\<close> leaves the loop and reaches the \<open>catch\<close> of the whole function: the result
  is then \<open>Inl\<close> with the message.
\<close>

fun process_loop :: "libs \<Rightarrow> bool \<Rightarrow> format \<Rightarrow> nat \<Rightarrow> imported_wallet option list
    \<Rightarrow> wallet list \<times> report list \<Rightarrow> string + (wallet list \<times> report list)" where
  "process_loop env fixPublicKeys fmt i [] state = Inr state"
| "process_loop env fixPublicKeys fmt i (entry # rest) (processedWallets, printed) =
     (case process_wallet env fixPublicKeys fmt i entry of
        Inl message \<Rightarrow> Inl message
      | Inr (reports, None) \<Rightarrow>
          process_loop env fixPublicKeys fmt (i + 1) rest (processedWallets, printed @ reports)
      | Inr (reports, Some processedWallet) \<Rightarrow>
          process_loop env fixPublicKeys fmt (i + 1) rest
            (processedWallets @ [processedWallet], printed @ reports))"

definition process_wallets :: "libs \<Rightarrow> bool \<Rightarrow> imported_wallet option list
    \<Rightarrow> string + (wallet list \<times> report list)" where
  "process_wallets env fixPublicKeys importedWallets =
     process_loop env fixPublicKeys (detect_format importedWallets) 0 importedWallets ([], [])"

text \<open>
  For the statements about the loop: the record that one round adds to
  \<open>processedWallets\<close>, if any; that a stored record's secret decodes as base58; and the
  source's test for a base64 secret.
\<close>

definition kept :: "report list \<times> wallet option \<Rightarrow> wallet list" where
  "kept r = (case snd r of None \<Rightarrow> [] | Some w \<Rightarrow> [w])"

definition decodes :: "libs \<Rightarrow> wallet \<Rightarrow> bool" where
  "decodes env w \<longleftrightarrow> (case bs58_decode env (privateKey w) of Inl _ \<Rightarrow> False | Inr _ \<Rightarrow> True)"

definition base64_marked :: "string \<Rightarrow> bool" where
  "base64_marked key \<longleftrightarrow>
     includes_chr key CHR ''+'' \<or> includes_chr key CHR ''/'' \<or> includes_chr key CHR ''=''"

section \<open>Import: merge into the store (\<open>importWallets\<close>, second half)\<close>

text \<open>\<open>Array.prototype.findIndex\<close>; \<open>None\<close> stands for the result \<open>-1\<close>.\<close>

fun findIndex :: "('a \<Rightarrow> bool) \<Rightarrow> 'a list \<Rightarrow> nat option" where
  "findIndex P [] = None"
| "findIndex P (x # xs) = (if P x then Some 0 else map_option Suc (findIndex P xs))"

text \<open>One round of the merge loop, on the state \<open>(mergedWallets, importCount)\<close>.\<close>

definition merge_step :: "bool \<Rightarrow> wallet list \<times> nat \<Rightarrow> wallet \<Rightarrow> wallet list \<times> nat" where
  "merge_step overwrite state wallet =
     (let mergedWallets = fst state; importCount = snd state;
          duplicateNameIndex = findIndex (\<lambda>w. name w = name wallet) mergedWallets;
          duplicateKeyIndex = findIndex (\<lambda>w. publicKey w = publicKey wallet) mergedWallets
      in case duplicateNameIndex of
           Some i \<Rightarrow>
             if overwrite then (mergedWallets[i := wallet], importCount + 1)
             else (mergedWallets, importCount)
         | None \<Rightarrow>
             (case duplicateKeyIndex of
                Some j \<Rightarrow>
                  if overwrite then (mergedWallets[j := wallet], importCount + 1)
                  else (mergedWallets, importCount)
              | None \<Rightarrow> (mergedWallets @ [wallet], importCount + 1)))"

fun merge_loop :: "bool \<Rightarrow> wallet list \<times> nat \<Rightarrow> wallet list \<Rightarrow> wallet list \<times> nat" where
  "merge_loop overwrite state [] = state"
| "merge_loop overwrite state (wallet # rest) =
     merge_loop overwrite (merge_step overwrite state wallet) rest"

definition mergeWallets :: "bool \<Rightarrow> wallet list \<Rightarrow> wallet list \<Rightarrow> wallet list \<times> nat" where
  "mergeWallets overwrite existingWallets processedWallets =
     merge_loop overwrite (existingWallets, 0) processedWallets"

text \<open>
  The conditions of the merge rules, in the spec's words: a record of the list shares the
  incoming record's name, or its address; and the incoming record is imported, that is
  appended or written over a record, rather than skipped.
\<close>

definition shares_name :: "wallet list \<Rightarrow> wallet \<Rightarrow> bool" where
  "shares_name mergedWallets wallet \<longleftrightarrow> list_ex (\<lambda>w. name w = name wallet) mergedWallets"

definition shares_address :: "wallet list \<Rightarrow> wallet \<Rightarrow> bool" where
  "shares_address mergedWallets wallet \<longleftrightarrow>
     list_ex (\<lambda>w. publicKey w = publicKey wallet) mergedWallets"

definition imported :: "bool \<Rightarrow> wallet list \<Rightarrow> wallet \<Rightarrow> bool" where
  "imported overwrite mergedWallets wallet \<longleftrightarrow>
     overwrite \<or> \<not> (shares_name mergedWallets wallet \<or> shares_address mergedWallets wallet)"

text \<open>
  What \<open>importWallets\<close> does to the store once the file is read and parsed: nothing when
  an error reached the \<open>catch\<close> of the function, or when no record passed validation; the
  validated list in place of the store when the user declines to keep the existing
  wallets; the merge otherwise. The result is the store and the count that is printed.
\<close>

definition importWallets :: "libs \<Rightarrow> bool \<Rightarrow> bool \<Rightarrow> bool \<Rightarrow> imported_wallet option list
    \<Rightarrow> wallet list \<Rightarrow> wallet list \<times> nat" where
  "importWallets env fixPublicKeys overwrite keepExisting importedWallets existingWallets =
     (case process_wallets env fixPublicKeys importedWallets of
        Inl message \<Rightarrow> (existingWallets, 0)
      | Inr (processedWallets, printed) \<Rightarrow>
          if processedWallets = [] then (existingWallets, 0)
          else if existingWallets \<noteq> [] \<and> \<not> keepExisting
          then (processedWallets, length processedWallets)
          else mergeWallets overwrite existingWallets processedWallets)"

section \<open>Collection policy (\<open>collectSol\<close>, src/index.js)\<close>

text \<open>
  Inside the loop of \<open>collectSol\<close> the decision for one wallet is
  \<^verbatim>\<open>
  const rentExemptBalance = await connection.getMinimumBalanceForRentExemption(0);
  const transferFee = 5000;
  const totalMinimumRequired = rentExemptBalance + transferFee + leaveAmountLamports;
  if (balance <= totalMinimumRequired) { console.log(`Skipping ...`); continue; }
  const transferAmount = balance - leaveAmountLamports - transferFee;
  \<close>
  Amounts are lamports. They are modelled as unbounded integers; the JavaScript numbers
  of the source are exact on integers of magnitude below \<open>2 ^ 53\<close>.
\<close>

datatype collection_plan = Skip | Withdraw int

definition collection_policy :: "int \<Rightarrow> int \<Rightarrow> int \<Rightarrow> int \<Rightarrow> collection_plan" where
  "collection_policy transferFee rentExemptBalance leaveAmountLamports balance =
     (let totalMinimumRequired = rentExemptBalance + transferFee + leaveAmountLamports
      in if balance \<le> totalMinimumRequired then Skip
         else Withdraw (balance - leaveAmountLamports - transferFee))"

definition transferFee :: int where
  "transferFee = 5000"

definition collectSol_plan :: "int \<Rightarrow> int \<Rightarrow> int \<Rightarrow> collection_plan" where
  "collectSol_plan rentExemptBalance leaveAmountLamports balance =
     collection_policy transferFee rentExemptBalance leaveAmountLamports balance"

section \<open>Batch planner (\<open>sendSolToAll\<close>, \<open>sendTokenToAll\<close>)\<close>

text \<open>\<open>xs.slice(i, j)\<close> for \<open>0 \<le> i \<le> j\<close>; an end beyond the length stops at the length.\<close>

definition slice :: "'a list \<Rightarrow> nat \<Rightarrow> nat \<Rightarrow> 'a list" where
  "slice xs i j = take (j - i) (drop i xs)"

text \<open>
  \<^verbatim>\<open>
  const MAX_WALLETS_PER_TX = 10;
  const walletBatches = [];
  for (let i = 0; i < targetWallets.length; i += MAX_WALLETS_PER_TX) {
    walletBatches.push(targetWallets.slice(i, i + MAX_WALLETS_PER_TX));
  }
  \<close>
  The loop is written twice in the source, with the constant 10 for native transfers and 5
  for token transfers; so it is here.
\<close>

function sendSolToAll_loop :: "'a list \<Rightarrow> nat \<Rightarrow> 'a list list \<Rightarrow> 'a list list" where
  "sendSolToAll_loop targetWallets i walletBatches =
     (if i < length targetWallets
      then sendSolToAll_loop targetWallets (i + 10)
             (walletBatches @ [slice targetWallets i (i + 10)])
      else walletBatches)"
  by pat_completeness auto
termination
  by (relation "measure (\<lambda>(targetWallets, i, walletBatches). length targetWallets - i)") auto

declare sendSolToAll_loop.simps [simp del]

definition sendSolToAll_batches :: "'a list \<Rightarrow> 'a list list" where
  "sendSolToAll_batches targetWallets = sendSolToAll_loop targetWallets 0 []"

function sendTokenToAll_loop :: "'a list \<Rightarrow> nat \<Rightarrow> 'a list list \<Rightarrow> 'a list list" where
  "sendTokenToAll_loop targetWallets i walletBatches =
     (if i < length targetWallets
      then sendTokenToAll_loop targetWallets (i + 5)
             (walletBatches @ [slice targetWallets i (i + 5)])
      else walletBatches)"
  by pat_completeness auto
termination
  by (relation "measure (\<lambda>(targetWallets, i, walletBatches). length targetWallets - i)") auto

declare sendTokenToAll_loop.simps [simp del]

definition sendTokenToAll_batches :: "'a list \<Rightarrow> 'a list list" where
  "sendTokenToAll_batches targetWallets = sendTokenToAll_loop targetWallets 0 []"

text \<open>
  The cut of a list into consecutive pieces of \<open>n\<close> elements, the last one shorter when
  \<open>n\<close> does not divide the length: what both loops compute, stated once for the proofs.
\<close>

function chunked :: "nat \<Rightarrow> 'a list \<Rightarrow> 'a list list" where
  "chunked n xs = (if xs = [] \<or> n = 0 then [] else take n xs # chunked n (drop n xs))"
  by pat_completeness auto
termination
  by (relation "measure (\<lambda>(n, xs). length xs)") auto

declare chunked.simps [simp del]

section \<open>Submitting the batches\<close>













section \<open>Index range parser (\<open>parseWalletIndices\<close>)\<close>

text \<open>
  A selector is a JavaScript string; its characters are modelled as Isabelle characters
  (code units below 256). \<open>None\<close> is an absent selector (\<open>undefined\<close>).
  The white space that \<open>trim\<close> and \<open>parseInt\<close> strip is then TAB, LF, VT, FF, CR, space
  and the no-break space.
\<close>

definition isWhiteSpace :: "char \<Rightarrow> bool" where
  "isWhiteSpace c \<longleftrightarrow>
     c \<in> set [CHR 0x09, CHR 0x0A, CHR 0x0B, CHR 0x0C, CHR 0x0D, CHR 0x20, CHR 0xA0]"

definition trim :: "string \<Rightarrow> string" where
  "trim s = rev (dropWhile isWhiteSpace (rev (dropWhile isWhiteSpace s)))"

text \<open>\<open>s.split(sep)\<close> for a separator of one character: the pieces between separators.\<close>

fun split_on :: "char \<Rightarrow> string \<Rightarrow> string list" where
  "split_on sep [] = [] # []"
| "split_on sep (c # cs) =
     (if c = sep then [] # split_on sep cs
      else (case split_on sep cs of
              [] \<Rightarrow> [c] # []
            | p # ps \<Rightarrow> (c # p) # ps))"

text \<open>
  \<open>parseInt(string)\<close> without a radix, as ECMAScript defines it: leading white space is
  skipped, then an optional sign, then \<open>0x\<close> or \<open>0X\<close> selects radix 16 (radix 10
  otherwise), then the longest run of digits of the radix is read and whatever follows is
  ignored; without a digit the result is \<open>NaN\<close>, here \<open>None\<close>. The value is an unbounded
  integer; JavaScript's numbers agree with it below \<open>2 ^ 53\<close>.
\<close>

definition digitValue :: "char \<Rightarrow> nat option" where
  "digitValue c =
     (let n = of_char c :: nat in
      if 48 \<le> n \<and> n \<le> 57 then Some (n - 48)
      else if 97 \<le> n \<and> n \<le> 122 then Some (n - 87)
      else if 65 \<le> n \<and> n \<le> 90 then Some (n - 55)
      else None)"

definition isRadixDigit :: "nat \<Rightarrow> char \<Rightarrow> bool" where
  "isRadixDigit R c = (case digitValue c of None \<Rightarrow> False | Some d \<Rightarrow> d < R)"

definition radixValue :: "nat \<Rightarrow> string \<Rightarrow> int" where
  "radixValue R Z = foldl (\<lambda>acc c. acc * int R + int (the (digitValue c))) 0 Z"

definition parseInt :: "string \<Rightarrow> int option" where
  "parseInt inputString =
     (let S = dropWhile isWhiteSpace inputString;
          sign = (if S \<noteq> [] \<and> hd S = CHR ''-'' then - 1 else 1 :: int);
          S = (if S \<noteq> [] \<and> (hd S = CHR ''+'' \<or> hd S = CHR ''-'') then tl S else S);
          hex = (take 2 S = ''0x'' \<or> take 2 S = ''0X'');
          R = (if hex then 16 else 10 :: nat);
          S = (if hex then drop 2 S else S);
          Z = takeWhile (isRadixDigit R) S
      in if Z = [] then None else Some (sign * radixValue R Z))"

text \<open>\<open>for (let i = start; i <= end; i++) indices.push(i)\<close>\<close>

function range_loop :: "int \<Rightarrow> int \<Rightarrow> int list \<Rightarrow> int list" where
  "range_loop i endIndex indices =
     (if i \<le> endIndex then range_loop (i + 1) endIndex (indices @ [i]) else indices)"
  by pat_completeness auto
termination
  by (relation "measure (\<lambda>(i, endIndex, indices). nat (endIndex + 1 - i))") auto

declare range_loop.simps [simp del]

text \<open>
  The body of the loop over the parts. A part with a \<open>-\<close> is split at every \<open>-\<close> and the
  first two pieces are parsed (\<open>const [start, end] = \<dots>\<close>); both must be numbers.
\<close>

definition push_part :: "string \<Rightarrow> int list \<Rightarrow> int list" where
  "push_part part indices =
     (if includes_chr part CHR ''-'' then
        (case map (\<lambda>num. parseInt (trim num)) (split_on CHR ''-'' part) of
           Some start # Some endIndex # _ \<Rightarrow> range_loop start endIndex indices
         | _ \<Rightarrow> indices)
      else
        (case parseInt (trim part) of
           Some index \<Rightarrow> indices @ [index]
         | None \<Rightarrow> indices))"

fun parts_loop :: "string list \<Rightarrow> int list \<Rightarrow> int list" where
  "parts_loop [] indices = indices"
| "parts_loop (part # parts) indices = parts_loop parts (push_part part indices)"

text \<open>\<open>[...new Set(indices)]\<close>: the elements in the order of their first occurrence.\<close>

fun newSet :: "int list \<Rightarrow> int list \<Rightarrow> int list" where
  "newSet [] s = s"
| "newSet (x # xs) s = newSet xs (if x \<in> set s then s else s @ [x])"

definition parseWalletIndices :: "string option \<Rightarrow> int list" where
  "parseWalletIndices walletRangeStr =
     (case walletRangeStr of
        None \<Rightarrow> []
      | Some str \<Rightarrow>
          if str = [] then []
          else (let indices = parts_loop (split_on CHR '','' str) []
                in sort (newSet indices [])))"




section \<open>Stand-ins for the network and the libraries, for evaluation at concrete inputs\<close>



text \<open>
  A store of two wallets, and three validated records to import: the first has the name of
  a stored wallet, the second the address of one, the third is new.
\<close>

definition demo_store :: "wallet list" where
  "demo_store =
     [\<lparr>name = ''wallet1'', publicKey = ''pkA'', privateKey = ''skA''\<rparr>,
      \<lparr>name = ''wallet2'', publicKey = ''pkB'', privateKey = ''skB''\<rparr>]"

definition demo_incoming :: "wallet list" where
  "demo_incoming =
     [\<lparr>name = ''wallet1'', publicKey = ''pkX'', privateKey = ''skX''\<rparr>,
      \<lparr>name = ''other'', publicKey = ''pkB'', privateKey = ''skB''\<rparr>,
      \<lparr>name = ''wallet3'', publicKey = ''pkC'', privateKey = ''skC''\<rparr>]"

text \<open>
  Stand-ins for the codecs and the key derivation: a secret is valid base58 when all its
  characters are of the base58 alphabet, and its bytes are its characters; the base64
  stand-in reads the characters before the padding; a secret of at least three bytes
  derives the address \<open>pk-\<close> followed by the secret's text.
\<close>

definition base58_alphabet :: string where
  "base58_alphabet = ''123456789ABCDEFGHJKLMNPQRSTUVWXYZabcdefghijkmnopqrstuvwxyz''"

definition demo_libs :: libs where
  "demo_libs =
     \<lparr>base64Decode = (\<lambda>s. Inr (map of_char (takeWhile (\<lambda>c. c \<noteq> CHR ''='') s))),
      bs58_encode = map char_of,
      bs58_decode = (\<lambda>s. if list_all (\<lambda>c. c \<in> set base58_alphabet) s
                          then Inr (map of_char s) else Inl ''Non-base58 character''),
      fromSecretKey = (\<lambda>bytes. if length bytes < 3 then Inl ''bad secret key size''
                               else Inr (''pk-'' @ map char_of bytes))\<rparr>"

text \<open>
  Records of import files: three in the standard shape (with a base58 secret, with a
  secret that is a number, with a base64 secret), three in the key-only shape (with a
  base58 secret, with a secret that is a number, with a base64 secret), and one without an
  address.
\<close>

definition named_base58 :: imported_wallet where
  "named_base58 =
     \<lparr>name_field = Some ''alice'', publicKey_field = Some ''pk-skA'',
      privateKey_field = SecretText ''skA''\<rparr>"

definition named_number :: imported_wallet where
  "named_number =
     \<lparr>name_field = Some ''bob'', publicKey_field = Some ''pk-skB'',
      privateKey_field = SecretOther\<rparr>"

definition named_base64 :: imported_wallet where
  "named_base64 =
     \<lparr>name_field = Some ''carol'', publicKey_field = Some ''pk-skC'',
      privateKey_field = SecretText ''skC==''\<rparr>"

definition keyonly_base58 :: imported_wallet where
  "keyonly_base58 =
     \<lparr>name_field = None, publicKey_field = Some ''pk-skD'',
      privateKey_field = SecretText ''skD''\<rparr>"

definition keyonly_number :: imported_wallet where
  "keyonly_number =
     \<lparr>name_field = None, publicKey_field = Some ''pk-skE'',
      privateKey_field = SecretOther\<rparr>"

definition keyonly_base64 :: imported_wallet where
  "keyonly_base64 =
     \<lparr>name_field = None, publicKey_field = Some ''pk-skF'',
      privateKey_field = SecretText ''skF==''\<rparr>"

definition named_no_address :: imported_wallet where
  "named_no_address =
     \<lparr>name_field = Some ''dave'', publicKey_field = None,
      privateKey_field = SecretText ''skG''\<rparr>"

section \<open>Theorems on the collection policy\<close>



text \<open>
  C4, as the code has it. With a rent-exempt minimum of 890880, the fee of 5000 and no
  reserve, a balance of 895880 is skipped, and a balance of 895881 is withdrawn less the
  fee: the amount is 890881.
\<close>

theorem collectSol_plan_boundary:
  "collectSol_plan 890880 0 895880 = Skip
   \<and> collectSol_plan 890880 0 895881 = Withdraw 890881"
  by (simp add: collectSol_plan_def collection_policy_def transferFee_def)

text \<open>
  C4, as it is written (the balance of 895881 is withdrawn in full), does not hold: the
  fee is subtracted from what is withdrawn.
\<close>

theorem collectSol_plan_boundary_counterexample:
  "collectSol_plan 890880 0 895881 \<noteq> Withdraw 895881"
  by (simp add: collectSol_plan_def collection_policy_def transferFee_def)

text \<open>
  C10. Whenever the policy decides to withdraw, the amount is strictly greater than the
  rent-exempt minimum; the network's minimum is never negative, so the amount is strictly
  positive and the transfer instruction never carries a zero or negative amount.
\<close>

theorem collectSol_withdraw_positive:
  assumes "0 \<le> rentExemptBalance"
    and "collectSol_plan rentExemptBalance leaveAmountLamports balance = Withdraw amount"
  shows "amount = balance - leaveAmountLamports - transferFee
         \<and> rentExemptBalance < amount \<and> 0 < amount"
  using assms
  by (auto simp: collectSol_plan_def collection_policy_def Let_def split: if_splits)

theorem collectSol_withdraw_positive_witness:
  "(0::int) \<le> 890880
   \<and> collectSol_plan 890880 0 895881 = Withdraw 890881
   \<and> 890881 = 895881 - 0 - transferFee
   \<and> (890880::int) < 890881 \<and> (0::int) < 890881"
proof -
  have r: "(0::int) \<le> 890880" by simp
  have p: "collectSol_plan 890880 0 895881 = Withdraw 890881"
    by (simp add: collectSol_plan_def collection_policy_def transferFee_def)
  from collectSol_withdraw_positive [OF r p] r p show ?thesis by simp
qed

section \<open>The batch planner is a lossless, order-preserving cover\<close>

lemma chunked_concat: "0 < n \<Longrightarrow> concat (chunked n xs) = xs"
proof (induction n xs rule: chunked.induct)
  case (1 n xs)
  then show ?case by (subst chunked.simps) auto
qed

lemma div_round_up_small: "0 < (L::nat) \<Longrightarrow> L < n \<Longrightarrow> (L + (n - 1)) div n = 1"
  using le_div_geq by simp

lemma div_round_up_step:
  "0 < (n::nat) \<Longrightarrow> n \<le> L \<Longrightarrow> Suc ((L - n + (n - 1)) div n) = (L + (n - 1)) div n"
  by (simp add: le_div_geq)

lemma chunked_length: "0 < n \<Longrightarrow> length (chunked n xs) = (length xs + (n - 1)) div n"
proof (induction n xs rule: chunked.induct)
  case (1 n xs)
  show ?case
  proof (cases "xs = []")
    case True
    then show ?thesis using "1.prems" by (subst chunked.simps) simp
  next
    case False
    then have IH: "length (chunked n (drop n xs)) = (length xs - n + (n - 1)) div n"
      using "1.IH" "1.prems" by simp
    have step: "length (chunked n xs) = Suc ((length xs - n + (n - 1)) div n)"
      using False "1.prems" IH by (subst chunked.simps) simp
    show ?thesis
    proof (cases "n \<le> length xs")
      case True
      then show ?thesis using step div_round_up_step [OF "1.prems" True] by simp
    next
      case F: False
      with False have L: "0 < length xs" "length xs < n" by simp_all
      from L(2) "1.prems" have "(length xs - n + (n - 1)) div n = 0" by simp
      then show ?thesis using step div_round_up_small [OF L] by simp
    qed
  qed
qed

lemma chunked_nth:
  "0 < n \<Longrightarrow> k < length (chunked n xs) \<Longrightarrow> chunked n xs ! k = take n (drop (n * k) xs)"
proof (induction n xs arbitrary: k rule: chunked.induct)
  case (1 n xs)
  from "1.prems"(2) have ne: "xs \<noteq> []" by (subst (asm) chunked.simps) auto
  have unf: "chunked n xs = take n xs # chunked n (drop n xs)"
    using ne "1.prems"(1) by (subst chunked.simps) simp
  show ?case
  proof (cases k)
    case 0
    then show ?thesis using unf by simp
  next
    case (Suc j)
    then have "j < length (chunked n (drop n xs))" using "1.prems"(2) unf by simp
    then have "chunked n (drop n xs) ! j = take n (drop (n * j) (drop n xs))"
      using "1.IH" ne "1.prems"(1) by simp
    then show ?thesis using unf Suc by (simp add: add.commute)
  qed
qed

lemma chunked_nonempty: "b \<in> set (chunked n xs) \<Longrightarrow> b \<noteq> [] \<and> length b \<le> n"
proof (induction n xs rule: chunked.induct)
  case (1 n xs)
  from "1.prems" have ne: "xs \<noteq> [] \<and> 0 < n" by (subst (asm) chunked.simps) (auto split: if_splits)
  then have unf: "chunked n xs = take n xs # chunked n (drop n xs)"
    by (subst chunked.simps) simp
  with "1.prems" "1.IH" ne show ?case by auto
qed

lemma sol_loop_chunked:
  "sendSolToAll_loop ws i acc = acc @ chunked 10 (drop i ws)"
proof (induction ws i acc rule: sendSolToAll_loop.induct)
  case (1 ws i acc)
  show ?case
  proof (cases "i < length ws")
    case True
    have "sendSolToAll_loop ws i acc = sendSolToAll_loop ws (i + 10) (acc @ [slice ws i (i + 10)])"
      using True by (subst sendSolToAll_loop.simps) simp
    also have "\<dots> = (acc @ [slice ws i (i + 10)]) @ chunked 10 (drop (i + 10) ws)"
      using "1.IH" [OF True] .
    also have "\<dots> = acc @ chunked 10 (drop i ws)"
      using True by (subst (2) chunked.simps) (simp add: slice_def add.commute)
    finally show ?thesis .
  next
    case False
    then show ?thesis by (simp add: sendSolToAll_loop.simps chunked.simps)
  qed
qed

lemma token_loop_chunked:
  "sendTokenToAll_loop ws i acc = acc @ chunked 5 (drop i ws)"
proof (induction ws i acc rule: sendTokenToAll_loop.induct)
  case (1 ws i acc)
  show ?case
  proof (cases "i < length ws")
    case True
    have "sendTokenToAll_loop ws i acc = sendTokenToAll_loop ws (i + 5) (acc @ [slice ws i (i + 5)])"
      using True by (subst sendTokenToAll_loop.simps) simp
    also have "\<dots> = (acc @ [slice ws i (i + 5)]) @ chunked 5 (drop (i + 5) ws)"
      using "1.IH" [OF True] .
    also have "\<dots> = acc @ chunked 5 (drop i ws)"
      using True by (subst (2) chunked.simps) (simp add: slice_def add.commute)
    finally show ?thesis .
  next
    case False
    then show ?thesis by (simp add: sendTokenToAll_loop.simps chunked.simps)
  qed
qed

lemma sendSolToAll_batches_chunked: "sendSolToAll_batches ws = chunked 10 ws"
  by (simp add: sendSolToAll_batches_def sol_loop_chunked)

lemma sendTokenToAll_batches_chunked: "sendTokenToAll_batches ws = chunked 5 ws"
  by (simp add: sendTokenToAll_batches_def token_loop_chunked)

lemma ceiling_div_10: "\<lceil>real N / 10\<rceil> = int ((N + 9) div 10)"
  by linarith

lemma ceiling_div_5: "\<lceil>real N / 5\<rceil> = int ((N + 4) div 5)"
  by linarith

lemma chunked_batch:
  assumes "0 < n" and "k < length (chunked n xs)"
  shows "chunked n xs ! k = take n (drop (n * k) xs) \<and> chunked n xs ! k \<noteq> []"
  using chunked_nth [OF assms] chunked_nonempty [OF nth_mem [OF assms(2)]] by simp

lemma chunked_23: 
  assumes "length xs = 23" 
  shows "map length (chunked 10 xs) = [10, 10, 3]"
proof -
  from assms have "xs \<noteq> []" by auto
  with assms show ?thesis by (simp add: chunked.simps)
qed

text \<open>
  C1. For every non-empty list of target wallets, the batches planned for native transfers
  (at most 10 wallets each) and for token transfers (at most 5 each), concatenated in
  order, give back the list; there are \<open>\<lceil>N / max\<rceil>\<close> of them; batch \<open>k\<close> is the
  contiguous run of at most \<open>max\<close> wallets that starts at position \<open>max * k\<close>, and is
  not empty. On 23 wallets the native batches have sizes 10, 10 and 3.
\<close>

theorem batch_planner_partition:
  assumes "targetWallets \<noteq> []"
  shows "concat (sendSolToAll_batches targetWallets) = targetWallets
    \<and> int (length (sendSolToAll_batches targetWallets)) = \<lceil>real (length targetWallets) / 10\<rceil>
    \<and> (\<forall>k < length (sendSolToAll_batches targetWallets).
          sendSolToAll_batches targetWallets ! k = take 10 (drop (10 * k) targetWallets)
          \<and> sendSolToAll_batches targetWallets ! k \<noteq> [])
    \<and> (length targetWallets = 23 \<longrightarrow>
          map length (sendSolToAll_batches targetWallets) = [10, 10, 3])
    \<and> concat (sendTokenToAll_batches targetWallets) = targetWallets
    \<and> int (length (sendTokenToAll_batches targetWallets)) = \<lceil>real (length targetWallets) / 5\<rceil>
    \<and> (\<forall>k < length (sendTokenToAll_batches targetWallets).
          sendTokenToAll_batches targetWallets ! k = take 5 (drop (5 * k) targetWallets)
          \<and> sendTokenToAll_batches targetWallets ! k \<noteq> [])"
proof -
  have c10: "concat (chunked 10 targetWallets) = targetWallets"
    and c5: "concat (chunked 5 targetWallets) = targetWallets"
    by (simp_all add: chunked_concat)
  have l10: "int (length (chunked 10 targetWallets)) = \<lceil>real (length targetWallets) / 10\<rceil>"
    by (simp add: chunked_length ceiling_div_10)
  have l5: "int (length (chunked 5 targetWallets)) = \<lceil>real (length targetWallets) / 5\<rceil>"
    by (simp add: chunked_length ceiling_div_5)
  have n10: "\<forall>k < length (chunked 10 targetWallets).
      chunked 10 targetWallets ! k = take 10 (drop (10 * k) targetWallets)
      \<and> chunked 10 targetWallets ! k \<noteq> []"
    by (intro allI impI chunked_batch) simp_all
  have n5: "\<forall>k < length (chunked 5 targetWallets).
      chunked 5 targetWallets ! k = take 5 (drop (5 * k) targetWallets)
      \<and> chunked 5 targetWallets ! k \<noteq> []"
    by (intro allI impI chunked_batch) simp_all
  have s: "length targetWallets = 23 \<longrightarrow> map length (chunked 10 targetWallets) = [10, 10, 3]"
    using chunked_23 by blast
  from c10 c5 l10 l5 n10 n5 s show ?thesis
    unfolding sendSolToAll_batches_chunked sendTokenToAll_batches_chunked by blast
qed

theorem batch_planner_partition_witness:
  "[1..<24] \<noteq> []
   \<and> concat (sendSolToAll_batches [1..<24]) = [1..<24]
   \<and> int (length (sendSolToAll_batches [1..<24])) = \<lceil>real (length [1..<24]) / 10\<rceil>
   \<and> length (sendSolToAll_batches [1..<24]) = 3
   \<and> sendSolToAll_batches [1..<24] ! 2 = [21, 22, 23]
   \<and> length [1..<24] = 23
   \<and> map length (sendSolToAll_batches [1..<24]) = [10, 10, 3]
   \<and> concat (sendTokenToAll_batches [1..<24]) = [1..<24]
   \<and> length (sendTokenToAll_batches [1..<24]) = 5
   \<and> sendTokenToAll_batches [1..<24] ! 4 = [21, 22, 23]"
proof -
  have ne: "[1..<24] \<noteq> []" by simp
  have len: "length [1..<24] = 23" by simp
  note t = batch_planner_partition [OF ne]
  from t len have sizes: "map length (sendSolToAll_batches [1..<24]) = [10, 10, 3]" by blast
  then have l3: "length (sendSolToAll_batches [1..<24]) = 3"
    using length_map [of length "sendSolToAll_batches [1..<24]"] by simp
  from t have "int (length (sendTokenToAll_batches [1..<24])) = \<lceil>real (length [1..<24]) / 5\<rceil>"
    by blast
  then have l5: "length (sendTokenToAll_batches [1..<24]) = 5" by simp
  from t l3 have "sendSolToAll_batches [1..<24] ! 2 = take 10 (drop (10 * 2) [1..<24])" by simp
  then have b2: "sendSolToAll_batches [1..<24] ! 2 = [21, 22, 23]" by (simp add: upt_rec)
  from t l5 have "sendTokenToAll_batches [1..<24] ! 4 = take 5 (drop (5 * 4) [1..<24])" by simp
  then have b4: "sendTokenToAll_batches [1..<24] ! 4 = [21, 22, 23]" by (simp add: upt_rec)
  from t ne len sizes l3 l5 b2 b4 show ?thesis by blast
qed

section \<open>Every batch is attempted and reported\<close>










section \<open>The index range parser returns the integers referenced, sorted and without duplicates\<close>




































text \<open>
  The source's test for a numeric token is that \<open>parseInt\<close> yields a number, and
  \<open>parseInt\<close> reads the leading number of a text and ignores what follows it: so a
  token such as \<open>5abc\<close> counts as 5, \<open>0x10\<close> as 16, and of \<open>2-4-9\<close> the first two
  numbers are read.
\<close>

lemma parseWalletIndices_leading_number:
  "parseWalletIndices (Some ''5abc'') = [5]
   \<and> parseWalletIndices (Some ''0x10'') = [16]
   \<and> parseWalletIndices (Some ''2-4-9'') = [2, 3, 4]
   \<and> parseWalletIndices (Some '' 7 , 8 - 9 '') = [7, 8, 9]"
  by code_simp


section \<open>The merge rules of the import\<close>

lemma findIndex_None: "findIndex P xs = None \<longleftrightarrow> \<not> list_ex P xs"
  by (induction xs) auto

lemma findIndex_Some:
  "findIndex P xs = Some i \<Longrightarrow> i < length xs \<and> P (xs ! i) \<and> (\<forall>j < i. \<not> P (xs ! j))"
proof (induction xs arbitrary: i)
  case Nil
  then show ?case by simp
next
  case (Cons x xs)
  show ?case
  proof (cases "P x")
    case True
    with Cons.prems show ?thesis by simp
  next
    case False
    with Cons.prems obtain k where k: "findIndex P xs = Some k" and i: "i = Suc k" by auto
    from Cons.IH [OF k] have "k < length xs" "P (xs ! k)" "\<forall>j < k. \<not> P (xs ! j)" by auto
    with False i show ?thesis by (auto simp: nth_Cons split: nat.splits)
  qed
qed

lemma findIndex_ex: "list_ex P xs \<Longrightarrow> \<exists>i. findIndex P xs = Some i"
  using findIndex_None [of P xs] by (cases "findIndex P xs") auto

lemma merge_step_name_overwrite:
  assumes "shares_name merged wallet"
  shows "\<exists>i < length merged. name (merged ! i) = name wallet
           \<and> (\<forall>j < i. name (merged ! j) \<noteq> name wallet)
           \<and> merge_step True (merged, c) wallet = (merged[i := wallet], c + 1)"
proof -
  from assms obtain i where i: "findIndex (\<lambda>w. name w = name wallet) merged = Some i"
    using findIndex_ex by (auto simp: shares_name_def)
  from findIndex_Some [OF i] i show ?thesis by (auto simp: merge_step_def)
qed

lemma merge_step_name_skip:
  assumes "shares_name merged wallet"
  shows "merge_step False (merged, c) wallet = (merged, c)"
proof -
  from assms obtain i where i: "findIndex (\<lambda>w. name w = name wallet) merged = Some i"
    using findIndex_ex by (auto simp: shares_name_def)
  then show ?thesis by (simp add: merge_step_def)
qed

lemma merge_step_address_overwrite:
  assumes "\<not> shares_name merged wallet" and "shares_address merged wallet"
  shows "\<exists>i < length merged. publicKey (merged ! i) = publicKey wallet
           \<and> (\<forall>j < i. publicKey (merged ! j) \<noteq> publicKey wallet)
           \<and> merge_step True (merged, c) wallet = (merged[i := wallet], c + 1)"
proof -
  from assms(1) have n: "findIndex (\<lambda>w. name w = name wallet) merged = None"
    by (simp add: findIndex_None shares_name_def)
  from assms(2) obtain i where i: "findIndex (\<lambda>w. publicKey w = publicKey wallet) merged = Some i"
    using findIndex_ex by (auto simp: shares_address_def)
  from findIndex_Some [OF i] i n show ?thesis by (auto simp: merge_step_def)
qed

lemma merge_step_address_skip:
  assumes "\<not> shares_name merged wallet" and "shares_address merged wallet"
  shows "merge_step False (merged, c) wallet = (merged, c)"
proof -
  from assms(1) have n: "findIndex (\<lambda>w. name w = name wallet) merged = None"
    by (simp add: findIndex_None shares_name_def)
  from assms(2) obtain i where i: "findIndex (\<lambda>w. publicKey w = publicKey wallet) merged = Some i"
    using findIndex_ex by (auto simp: shares_address_def)
  with n show ?thesis by (simp add: merge_step_def)
qed

lemma merge_step_append:
  assumes "\<not> shares_name merged wallet" and "\<not> shares_address merged wallet"
  shows "merge_step overwrite (merged, c) wallet = (merged @ [wallet], c + 1)"
  using assms by (simp add: merge_step_def findIndex_None [symmetric] shares_name_def shares_address_def)

lemma merge_step_count:
  "snd (merge_step overwrite state wallet) =
     snd state + (if imported overwrite (fst state) wallet then 1 else 0)"
proof (cases state)
  case (Pair merged c)
  show ?thesis
  proof (cases "shares_name merged wallet")
    case True
    then show ?thesis
      using merge_step_name_overwrite [OF True, of c] merge_step_name_skip [OF True, of c] Pair
      by (cases overwrite) (auto simp: imported_def)
  next
    case False
    show ?thesis
    proof (cases "shares_address merged wallet")
      case True
      then show ?thesis
        using merge_step_address_overwrite [OF False True, of c]
          merge_step_address_skip [OF False True, of c] Pair
        by (cases overwrite) (auto simp: imported_def)
    next
      case F: False
      then show ?thesis using merge_step_append [OF False F, of overwrite c] Pair False
        by (simp add: imported_def)
    qed
  qed
qed

lemma merge_loop_foldl: "merge_loop overwrite state wallets = foldl (merge_step overwrite) state wallets"
  by (induction wallets arbitrary: state) auto

lemma mergeWallets_snoc:
  "mergeWallets overwrite existing (incoming @ [wallet]) =
     merge_step overwrite (mergeWallets overwrite existing incoming) wallet"
  by (simp add: mergeWallets_def merge_loop_foldl)

lemma mergeWallets_count:
  "snd (mergeWallets overwrite existing incoming) =
     length (filter (\<lambda>k. imported overwrite
                            (fst (mergeWallets overwrite existing (take k incoming)))
                            (incoming ! k))
               [0..<length incoming])"
proof (induction incoming rule: rev_induct)
  case Nil
  then show ?case by (simp add: mergeWallets_def)
next
  case (snoc wallet incoming)
  have "filter (\<lambda>k. imported overwrite
                       (fst (mergeWallets overwrite existing (take k (incoming @ [wallet]))))
                       ((incoming @ [wallet]) ! k))
          [0..<length incoming]
        = filter (\<lambda>k. imported overwrite
                       (fst (mergeWallets overwrite existing (take k incoming)))
                       (incoming ! k))
          [0..<length incoming]"
    by (rule filter_cong) (auto simp: nth_append)
  then show ?case
    using snoc.IH by (simp add: mergeWallets_snoc merge_step_count)
qed

lemma mergeWallets_overwrite_count: "snd (mergeWallets True existing incoming) = length incoming"
  by (simp add: mergeWallets_count imported_def)

lemma merge_step_no_overwrite:
  "fst (merge_step False (merged, c) wallet) = merged
     \<and> snd (merge_step False (merged, c) wallet) = c
   \<or> fst (merge_step False (merged, c) wallet) = merged @ [wallet]
     \<and> snd (merge_step False (merged, c) wallet) = c + 1"
  by (simp add: merge_step_def split: option.splits)

lemma mergeWallets_no_overwrite:
  "take (length existing) (fst (mergeWallets False existing incoming)) = existing
   \<and> length existing \<le> length (fst (mergeWallets False existing incoming))
   \<and> snd (mergeWallets False existing incoming)
       = length (fst (mergeWallets False existing incoming)) - length existing"
proof (induction incoming rule: rev_induct)
  case Nil
  then show ?case by (simp add: mergeWallets_def)
next
  case (snoc wallet incoming)
  obtain merged c where m: "mergeWallets False existing incoming = (merged, c)"
    by (cases "mergeWallets False existing incoming")
  from snoc.IH m have IH: "take (length existing) merged = existing"
    "length existing \<le> length merged" "c = length merged - length existing" by simp_all
  from merge_step_no_overwrite [of merged c wallet] IH show ?case
    by (auto simp: mergeWallets_snoc m)
qed

text \<open>
  C6. One round of the merge, on the list merged so far: when a record of the list has the
  incoming record's name, the first such record is overwritten in place and the count goes
  up with overwrite mode on, and list and count are unchanged with overwrite mode off; else
  when a record has the incoming record's address, the same rule applies to the first such
  record; else the incoming record is appended and counted. The merge runs these rounds
  over the incoming list in order, starting from the existing list and a count of zero.
  The count at the end is the number of incoming records that were appended or
  overwritten: all of them with overwrite mode on; with overwrite mode off, the number of
  records appended, and the existing records are all kept as they were.
\<close>

theorem import_merge_rules:
  "(shares_name merged wallet \<longrightarrow>
      (\<exists>i < length merged. name (merged ! i) = name wallet
          \<and> (\<forall>j < i. name (merged ! j) \<noteq> name wallet)
          \<and> merge_step True (merged, c) wallet = (merged[i := wallet], c + 1))
      \<and> merge_step False (merged, c) wallet = (merged, c))
   \<and> (\<not> shares_name merged wallet \<and> shares_address merged wallet \<longrightarrow>
      (\<exists>i < length merged. publicKey (merged ! i) = publicKey wallet
          \<and> (\<forall>j < i. publicKey (merged ! j) \<noteq> publicKey wallet)
          \<and> merge_step True (merged, c) wallet = (merged[i := wallet], c + 1))
      \<and> merge_step False (merged, c) wallet = (merged, c))
   \<and> (\<not> shares_name merged wallet \<and> \<not> shares_address merged wallet \<longrightarrow>
      merge_step overwrite (merged, c) wallet = (merged @ [wallet], c + 1))
   \<and> mergeWallets overwrite existing incoming
       = foldl (merge_step overwrite) (existing, 0) incoming
   \<and> snd (mergeWallets overwrite existing incoming)
       = length (filter (\<lambda>k. imported overwrite
                                (fst (mergeWallets overwrite existing (take k incoming)))
                                (incoming ! k))
                   [0..<length incoming])
   \<and> snd (mergeWallets True existing incoming) = length incoming
   \<and> take (length existing) (fst (mergeWallets False existing incoming)) = existing
   \<and> snd (mergeWallets False existing incoming)
       = length (fst (mergeWallets False existing incoming)) - length existing"
proof -
  have a: "shares_name merged wallet \<longrightarrow>
      (\<exists>i < length merged. name (merged ! i) = name wallet
          \<and> (\<forall>j < i. name (merged ! j) \<noteq> name wallet)
          \<and> merge_step True (merged, c) wallet = (merged[i := wallet], c + 1))
      \<and> merge_step False (merged, c) wallet = (merged, c)"
    using merge_step_name_overwrite [of merged wallet c] merge_step_name_skip [of merged wallet c]
    by blast
  have b: "\<not> shares_name merged wallet \<and> shares_address merged wallet \<longrightarrow>
      (\<exists>i < length merged. publicKey (merged ! i) = publicKey wallet
          \<and> (\<forall>j < i. publicKey (merged ! j) \<noteq> publicKey wallet)
          \<and> merge_step True (merged, c) wallet = (merged[i := wallet], c + 1))
      \<and> merge_step False (merged, c) wallet = (merged, c)"
    using merge_step_address_overwrite [of merged wallet c]
      merge_step_address_skip [of merged wallet c]
    by blast
  have d: "\<not> shares_name merged wallet \<and> \<not> shares_address merged wallet \<longrightarrow>
      merge_step overwrite (merged, c) wallet = (merged @ [wallet], c + 1)"
    using merge_step_append [of merged wallet overwrite c] by blast
  have e: "mergeWallets overwrite existing incoming
       = foldl (merge_step overwrite) (existing, 0) incoming"
    by (simp add: mergeWallets_def merge_loop_foldl)
  from a b d e mergeWallets_count [of overwrite existing incoming]
    mergeWallets_overwrite_count [of existing incoming]
    mergeWallets_no_overwrite [of existing incoming]
  show ?thesis by (intro conjI) simp_all
qed

theorem import_merge_rules_witness:
  "shares_name demo_store (demo_incoming ! 0)
   \<and> merge_step True (demo_store, 0) (demo_incoming ! 0)
       = (demo_store[0 := demo_incoming ! 0], 1)
   \<and> merge_step False (demo_store, 0) (demo_incoming ! 0) = (demo_store, 0)
   \<and> \<not> shares_name demo_store (demo_incoming ! 1)
   \<and> shares_address demo_store (demo_incoming ! 1)
   \<and> merge_step True (demo_store, 0) (demo_incoming ! 1)
       = (demo_store[1 := demo_incoming ! 1], 1)
   \<and> merge_step False (demo_store, 0) (demo_incoming ! 1) = (demo_store, 0)
   \<and> \<not> shares_name demo_store (demo_incoming ! 2)
   \<and> \<not> shares_address demo_store (demo_incoming ! 2)
   \<and> merge_step False (demo_store, 0) (demo_incoming ! 2)
       = (demo_store @ [demo_incoming ! 2], 1)
   \<and> snd (mergeWallets True demo_store demo_incoming) = 3
   \<and> take 2 (fst (mergeWallets False demo_store demo_incoming)) = demo_store
   \<and> snd (mergeWallets False demo_store demo_incoming) = 1"
proof -
  have n0: "shares_name demo_store (demo_incoming ! 0)" by code_simp
  have n1: "\<not> shares_name demo_store (demo_incoming ! 1)" by code_simp
  have a1: "shares_address demo_store (demo_incoming ! 1)" by code_simp
  have n2: "\<not> shares_name demo_store (demo_incoming ! 2)" by code_simp
  have a2: "\<not> shares_address demo_store (demo_incoming ! 2)" by code_simp
  have l: "length demo_store = 2" "length demo_incoming = 3" by (simp_all add: demo_store_def demo_incoming_def)
  have names: "name (demo_store ! 1) \<noteq> name (demo_incoming ! 0)"
    by (simp add: demo_store_def demo_incoming_def)
  have keys: "publicKey (demo_store ! 0) \<noteq> publicKey (demo_incoming ! 1)"
    by (simp add: demo_store_def demo_incoming_def)
  note t0 = import_merge_rules [of demo_store "demo_incoming ! 0" 0 False demo_store demo_incoming]
  note t1 = import_merge_rules [of demo_store "demo_incoming ! 1" 0 False demo_store demo_incoming]
  note t2 = import_merge_rules [of demo_store "demo_incoming ! 2" 0 False demo_store demo_incoming]
  from t0 n0 obtain i where i: "i < length demo_store" "name (demo_store ! i) = name (demo_incoming ! 0)"
    "merge_step True (demo_store, 0) (demo_incoming ! 0) = (demo_store[i := demo_incoming ! 0], 0 + 1)"
    by blast
  from i(1,2) l names have "i = 0" by (cases i) (auto simp: less_Suc_eq)
  with i(3) have s0: "merge_step True (demo_store, 0) (demo_incoming ! 0)
       = (demo_store[0 := demo_incoming ! 0], 1)" by simp
  from t0 n0 have k0: "merge_step False (demo_store, 0) (demo_incoming ! 0) = (demo_store, 0)"
    by blast
  from t1 n1 a1 obtain j where j: "j < length demo_store"
    "publicKey (demo_store ! j) = publicKey (demo_incoming ! 1)"
    "merge_step True (demo_store, 0) (demo_incoming ! 1) = (demo_store[j := demo_incoming ! 1], 0 + 1)"
    by blast
  from j(1,2) l keys have "j = 1" by (cases j) (auto simp: less_Suc_eq)
  with j(3) have s1: "merge_step True (demo_store, 0) (demo_incoming ! 1)
       = (demo_store[1 := demo_incoming ! 1], 1)" by simp
  from t1 n1 a1 have k1: "merge_step False (demo_store, 0) (demo_incoming ! 1) = (demo_store, 0)"
    by blast
  from t2 n2 a2 have k2: "merge_step False (demo_store, 0) (demo_incoming ! 2)
       = (demo_store @ [demo_incoming ! 2], 1)"
    by simp
  from t0 have "snd (mergeWallets True demo_store demo_incoming) = length demo_incoming"
    by (elim conjE)
  with l have c3: "snd (mergeWallets True demo_store demo_incoming) = 3" by simp
  from t0 have "take (length demo_store) (fst (mergeWallets False demo_store demo_incoming))
      = demo_store"
    by (elim conjE)
  with l have p: "take 2 (fst (mergeWallets False demo_store demo_incoming)) = demo_store"
    by simp
  have l3: "length (fst (mergeWallets False demo_store demo_incoming)) = 3" by code_simp
  from t0 have "snd (mergeWallets False demo_store demo_incoming)
      = length (fst (mergeWallets False demo_store demo_incoming)) - length demo_store"
    by (elim conjE)
  with l l3 have c1: "snd (mergeWallets False demo_store demo_incoming) = 1" by simp
  from n0 s0 k0 n1 a1 s1 k1 n2 a2 k2 c3 p c1 show ?thesis by (intro conjI)
qed

section \<open>Stored names stay pairwise distinct\<close>






section \<open>Validation of the records of an import file\<close>

text \<open>
  As long as no round throws outside its inner \<open>try\<close>, the loop visits every element:
  what is stored and what is printed are the rounds' own results, in order. An element
  whose secret is absent or text never throws so; a record that is skipped is reported;
  and a record whose derived address differs from the stored one is stored with the
  derived address when the fix option is on, and skipped when it is off.
\<close>

lemma process_loop_continues:
  assumes "\<forall>k < length entries.
             process_wallet env fixPublicKeys fmt (i + k) (entries ! k) = Inr (r (i + k))"
  shows "process_loop env fixPublicKeys fmt i entries (ws, printed) =
           Inr (ws @ concat (map (\<lambda>k. kept (r (i + k))) [0..<length entries]),
                printed @ concat (map (\<lambda>k. fst (r (i + k))) [0..<length entries]))"
  using assms
proof (induction entries arbitrary: i ws printed)
  case Nil
  then show ?case by simp
next
  case (Cons entry entries)
  from Cons.prems have h: "process_wallet env fixPublicKeys fmt i entry = Inr (r i)"
    by fastforce
  from Cons.prems have t: "\<forall>k < length entries.
      process_wallet env fixPublicKeys fmt (Suc i + k) (entries ! k) = Inr (r (Suc i + k))"
    by fastforce
  have m: "map f [0..<Suc n] = f 0 # map (\<lambda>k. f (Suc k)) [0..<n]"
    for f :: "nat \<Rightarrow> 'b list" and n
    by (simp add: upt_conv_Cons map_Suc_upt [symmetric] del: upt_Suc)
  obtain reports res where r: "r i = (reports, res)" by (cases "r i")
  show ?case
    using h r Cons.IH [OF t]
    by (cases res) (simp_all add: m kept_def del: upt_Suc)
qed

lemma process_wallet_text_no_error:
  "privateKey_field wallet \<noteq> SecretOther \<Longrightarrow>
   \<exists>r. process_wallet env fixPublicKeys fmt i (Some wallet) = Inr r"
  by (cases fmt; cases "privateKey_field wallet")
    (auto simp: process_wallet_def shape_wallet_def truthy_secret_def Let_def
      split: sum.splits prod.splits option.splits)

lemma skipped_is_reported:
  "process_wallet env fixPublicKeys fmt i entry = Inr (reports, None) \<Longrightarrow> reports \<noteq> []"
  by (cases fmt)
    (auto simp: process_wallet_def shape_wallet_def verify_wallet_def verify_key_def Let_def
      split: sum.splits prod.splits option.splits secret_field.splits if_splits)

lemma mismatch_fixed:
  assumes "bs58_decode env key = Inr buffer" and "fromSecretKey env buffer = Inr derived"
    and "derived \<noteq> address"
  shows "verify_wallet env True \<lparr>p_name = nm, p_publicKey = address, p_privateKey = SecretText key\<rparr>
           = ([KeyMismatch nm address derived, FixingKey nm],
              Some \<lparr>name = nm, publicKey = derived, privateKey = key\<rparr>)"
    and "verify_wallet env False \<lparr>p_name = nm, p_publicKey = address, p_privateKey = SecretText key\<rparr>
           = ([KeyMismatch nm address derived, SkippingMismatch nm], None)"
  using assms by (simp_all add: verify_wallet_def verify_key_def)

lemma process_loop_abort:
  "process_wallet env fixPublicKeys fmt (i + length before) entry = Inl message \<Longrightarrow>
   (\<forall>k < length before. \<exists>r. process_wallet env fixPublicKeys fmt (i + k) (before ! k) = Inr r) \<Longrightarrow>
   process_loop env fixPublicKeys fmt i (before @ entry # rest) state = Inl message"
proof (induction before arbitrary: i state)
  case Nil
  then show ?case by (cases state) simp
next
  case (Cons e before)
  from Cons.prems(2) obtain r where r: "process_wallet env fixPublicKeys fmt i e = Inr r"
    by fastforce
  have a: "process_wallet env fixPublicKeys fmt (Suc i + length before) entry = Inl message"
    using Cons.prems(1) by simp
  have b: "\<forall>k < length before.
      \<exists>r. process_wallet env fixPublicKeys fmt (Suc i + k) (before ! k) = Inr r"
    using Cons.prems(2) by fastforce
  note IH = Cons.IH [OF a b]
  obtain ws printed where s: "state = (ws, printed)" by (cases state)
  obtain reports res where rr: "r = (reports, res)" by (cases r)
  show ?case using r rr s IH by (cases res) simp_all
qed

lemma shape_keyonly_other:
  "truthy (publicKey_field wallet) \<Longrightarrow> privateKey_field wallet = SecretOther \<Longrightarrow>
   shape_wallet env Keyonly i (Some wallet) = Inl ''wallet.privateKey.includes is not a function''"
  by (simp add: shape_wallet_def truthy_secret_def)

lemma process_wallet_keyonly_text:
  "privateKey_field wallet = SecretText key \<Longrightarrow>
   \<exists>r. process_wallet env fixPublicKeys Keyonly i (Some wallet) = Inr r"
  by (auto simp: process_wallet_def shape_wallet_def Let_def split: sum.splits prod.splits option.splits)

text \<open>
  C7, at the input where the code departs from it. In a key-only file whose second record
  has a secret that is not text and has no \<open>includes\<close> method (a number), the test for a
  base64 secret throws outside the inner \<open>try\<close>: whatever the libraries and the options,
  the import ends there, nothing is stored, and the records before and after are lost. In
  a file of the standard format the record with such a secret is skipped and reported, and
  the other records are processed.
\<close>

theorem import_aborts_on_secret_without_includes:
  "process_wallets env fixPublicKeys [Some keyonly_base58, Some keyonly_number, Some keyonly_base64]
     = Inl ''wallet.privateKey.includes is not a function''
   \<and> importWallets env fixPublicKeys overwrite keepExisting
         [Some keyonly_base58, Some keyonly_number, Some keyonly_base64] existingWallets
     = (existingWallets, 0)
   \<and> process_wallets demo_libs False [Some named_base58, Some named_number, Some named_base64]
     = Inr ([\<lparr>name = ''alice'', publicKey = ''pk-skA'', privateKey = ''skA''\<rparr>],
            [InvalidPrivateKey ''bob'' ''Expected String'',
             InvalidPrivateKey ''carol'' ''Non-base58 character''])"
proof -
  have f: "detect_format [Some keyonly_base58, Some keyonly_number, Some keyonly_base64] = Keyonly"
    by (simp add: detect_format_def keyonly_base58_def truthy_def truthy_secret_def)
  have a: "process_wallet env fixPublicKeys Keyonly 1 (Some keyonly_number)
            = Inl ''wallet.privateKey.includes is not a function''"
    by (simp add: process_wallet_def shape_keyonly_other keyonly_number_def truthy_def)
  have "privateKey_field keyonly_base58 = SecretText ''skD''" by (simp add: keyonly_base58_def)
  from process_wallet_keyonly_text [OF this]
  obtain r where r: "process_wallet env fixPublicKeys Keyonly 0 (Some keyonly_base58) = Inr r"
    by blast
  have p: "process_wallets env fixPublicKeys
             [Some keyonly_base58, Some keyonly_number, Some keyonly_base64]
           = Inl ''wallet.privateKey.includes is not a function''"
    using process_loop_abort [of env fixPublicKeys Keyonly 0 "[Some keyonly_base58]"
        "Some keyonly_number" _ "[Some keyonly_base64]" "([], [])"] a r
    by (simp add: process_wallets_def f)
  have i: "importWallets env fixPublicKeys overwrite keepExisting
         [Some keyonly_base58, Some keyonly_number, Some keyonly_base64] existingWallets
     = (existingWallets, 0)"
    by (simp add: importWallets_def p)
  have s: "process_wallets demo_libs False [Some named_base58, Some named_number, Some named_base64]
     = Inr ([\<lparr>name = ''alice'', publicKey = ''pk-skA'', privateKey = ''skA''\<rparr>],
            [InvalidPrivateKey ''bob'' ''Expected String'',
             InvalidPrivateKey ''carol'' ''Non-base58 character''])"
    by code_simp
  from p i s show ?thesis by (intro conjI)
qed

section \<open>Shapes and encodings of the records of an import file\<close>

lemma verify_key_decodes:
  "verify_key env fixPublicKeys pw = (reports, Some w) \<Longrightarrow> decodes env w"
  by (auto simp: verify_key_def decodes_def split: sum.splits if_splits)

lemma process_wallet_decodes:
  "process_wallet env fixPublicKeys fmt i entry = Inr (reports, Some w) \<Longrightarrow> decodes env w"
  by (auto simp: process_wallet_def verify_wallet_def
      split: sum.splits prod.splits option.splits secret_field.splits
      dest: verify_key_decodes)

lemma process_loop_decodes:
  "process_loop env fixPublicKeys fmt i entries state = Inr (ws, printed) \<Longrightarrow>
   list_all (decodes env) (fst state) \<Longrightarrow> list_all (decodes env) ws"
proof (induction entries arbitrary: i state)
  case Nil
  then show ?case by simp
next
  case (Cons entry entries)
  obtain ws0 printed0 where s: "state = (ws0, printed0)" by (cases state)
  show ?case
  proof (cases "process_wallet env fixPublicKeys fmt i entry")
    case (Inl message)
    with Cons.prems s show ?thesis by simp
  next
    case (Inr r)
    obtain reports res where r: "r = (reports, res)" by (cases r)
    show ?thesis
    proof (cases res)
      case None
      with Cons.prems s Inr r
      have "process_loop env fixPublicKeys fmt (i + 1) entries (ws0, printed0 @ reports)
              = Inr (ws, printed)" by simp
      from Cons.IH [OF this] Cons.prems(2) s show ?thesis by simp
    next
      case (Some w)
      with Cons.prems s Inr r
      have l: "process_loop env fixPublicKeys fmt (i + 1) entries
                 (ws0 @ [w], printed0 @ reports) = Inr (ws, printed)" by simp
      have "decodes env w" using process_wallet_decodes Inr r Some by blast
      with Cons.prems(2) s have "list_all (decodes env) (fst (ws0 @ [w], printed0 @ reports))"
        by simp
      from Cons.IH [OF l this] show ?thesis .
    qed
  qed
qed

lemma process_wallets_decodes:
  "process_wallets env fixPublicKeys importedWallets = Inr (ws, printed) \<Longrightarrow>
   list_all (decodes env) ws"
  unfolding process_wallets_def by (erule process_loop_decodes) simp

lemma detect_format_first:
  "detect_format (entry # rest) = detect_format [entry]"
  by (simp add: detect_format_def split: option.splits)

lemma shape_keyonly_text:
  assumes "truthy (publicKey_field wallet)" and "privateKey_field wallet = SecretText key"
    and "key \<noteq> []"
  shows "\<exists>reports.
    shape_wallet env Keyonly i (Some wallet) =
      Inr (reports,
           Some \<lparr>p_name = (if truthy (name_field wallet) then the (name_field wallet)
                           else ''imported_wallet'' @ number_text (i + 1)),
                 p_publicKey = the (publicKey_field wallet),
                 p_privateKey =
                   SecretText (if base64_marked key
                               then (case base64Decode env key of
                                       Inr bytes \<Rightarrow> bs58_encode env bytes
                                     | Inl message \<Rightarrow> key)
                               else key)\<rparr>)"
  using assms
  by (auto simp: shape_wallet_def truthy_secret_def base64_marked_def Let_def split: sum.splits)

lemma shape_standard:
  "shape_wallet env Standard i (Some wallet) =
     (if truthy (name_field wallet) \<and> truthy (publicKey_field wallet)
         \<and> truthy_secret (privateKey_field wallet)
      then Inr ([], Some \<lparr>p_name = the (name_field wallet),
                           p_publicKey = the (publicKey_field wallet),
                           p_privateKey = privateKey_field wallet\<rparr>)
      else Inr ([MissingFields i], None))"
  by (simp add: shape_wallet_def)

lemma detect_format_unknown:
  "\<not> (truthy (publicKey_field sample) \<and> truthy_secret (privateKey_field sample)) \<Longrightarrow>
   detect_format (Some sample # rest) = Unknown"
  by (auto simp: detect_format_def)

lemma process_wallet_unknown:
  "process_wallet env fixPublicKeys Unknown i entry = Inr ([UnknownFormat i], None)"
  by (simp add: process_wallet_def shape_wallet_def)

text \<open>
  C9, as the code has it. The format of the whole file is the one of its first element.
  In a key-only file a record with an address and a non-empty text secret is shaped with
  or without a name (a missing name is made from its position), and its secret is
  converted from base64 to base58 exactly when it contains \<open>+\<close>, \<open>/\<close> or \<open>=\<close> (it
  is kept as it is when the conversion throws). In a standard file a record needs a name,
  an address and a secret, and the secret is kept as it is. When the first record lacks an
  address or a secret, the format is unknown and every element is skipped and reported as
  such. In every file, the secret of every record that is stored decodes as base58.
\<close>

theorem import_format_per_file:
  "process_wallets env fixPublicKeys (entry # rest)
     = process_loop env fixPublicKeys (detect_format [entry]) 0 (entry # rest) ([], [])
   \<and> (truthy (publicKey_field wallet) \<and> privateKey_field wallet = SecretText key \<and> key \<noteq> [] \<longrightarrow>
        (\<exists>reports.
           shape_wallet env Keyonly i (Some wallet) =
             Inr (reports,
                  Some \<lparr>p_name = (if truthy (name_field wallet) then the (name_field wallet)
                                  else ''imported_wallet'' @ number_text (i + 1)),
                        p_publicKey = the (publicKey_field wallet),
                        p_privateKey =
                          SecretText (if base64_marked key
                                      then (case base64Decode env key of
                                              Inr bytes \<Rightarrow> bs58_encode env bytes
                                            | Inl message \<Rightarrow> key)
                                      else key)\<rparr>)))
   \<and> shape_wallet env Standard i (Some wallet) =
       (if truthy (name_field wallet) \<and> truthy (publicKey_field wallet)
           \<and> truthy_secret (privateKey_field wallet)
        then Inr ([], Some \<lparr>p_name = the (name_field wallet),
                             p_publicKey = the (publicKey_field wallet),
                             p_privateKey = privateKey_field wallet\<rparr>)
        else Inr ([MissingFields i], None))
   \<and> (\<not> (truthy (publicKey_field sample) \<and> truthy_secret (privateKey_field sample)) \<longrightarrow>
        detect_format (Some sample # others) = Unknown)
   \<and> process_wallet env fixPublicKeys Unknown i element = Inr ([UnknownFormat i], None)
   \<and> (process_wallets env fixPublicKeys importedWallets = Inr (processedWallets, printed) \<longrightarrow>
        list_all (decodes env) processedWallets)"
proof -
  have a: "process_wallets env fixPublicKeys (entry # rest)
     = process_loop env fixPublicKeys (detect_format [entry]) 0 (entry # rest) ([], [])"
    unfolding process_wallets_def by (subst detect_format_first) (rule refl)
  have b: "truthy (publicKey_field wallet) \<and> privateKey_field wallet = SecretText key
        \<and> key \<noteq> [] \<longrightarrow>
        (\<exists>reports.
           shape_wallet env Keyonly i (Some wallet) =
             Inr (reports,
                  Some \<lparr>p_name = (if truthy (name_field wallet) then the (name_field wallet)
                                  else ''imported_wallet'' @ number_text (i + 1)),
                        p_publicKey = the (publicKey_field wallet),
                        p_privateKey =
                          SecretText (if base64_marked key
                                      then (case base64Decode env key of
                                              Inr bytes \<Rightarrow> bs58_encode env bytes
                                            | Inl message \<Rightarrow> key)
                                      else key)\<rparr>))"
    by (intro impI, elim conjE) (rule shape_keyonly_text)
  have d: "process_wallets env fixPublicKeys importedWallets = Inr (processedWallets, printed)
        \<longrightarrow> list_all (decodes env) processedWallets"
    by (intro impI) (rule process_wallets_decodes)
  have u: "\<not> (truthy (publicKey_field sample) \<and> truthy_secret (privateKey_field sample)) \<longrightarrow>
        detect_format (Some sample # others) = Unknown"
    by (intro impI) (rule detect_format_unknown)
  from a b shape_standard [of env i wallet] u
    process_wallet_unknown [of env fixPublicKeys i element] d
  show ?thesis by (intro conjI)
qed

text \<open>
  C9, as it is written (shapes and encodings may be mixed freely in one file), does not
  hold: after a first record in the standard shape, the records without a name are
  skipped, while the same records are all stored when a key-only record comes first; and
  in a standard file a base64 secret is not converted, so its record is skipped.
\<close>

theorem import_format_per_file_counterexample:
  "process_wallets demo_libs False [Some named_base58, Some keyonly_base58, Some keyonly_base64]
     = Inr ([\<lparr>name = ''alice'', publicKey = ''pk-skA'', privateKey = ''skA''\<rparr>],
            [MissingFields 1, MissingFields 2])
   \<and> process_wallets demo_libs False [Some keyonly_base58, Some named_base58, Some keyonly_base64]
     = Inr ([\<lparr>name = ''imported_wallet1'', publicKey = ''pk-skD'', privateKey = ''skD''\<rparr>,
             \<lparr>name = ''alice'', publicKey = ''pk-skA'', privateKey = ''skA''\<rparr>,
             \<lparr>name = ''imported_wallet3'', publicKey = ''pk-skF'', privateKey = ''skF''\<rparr>],
            [])
   \<and> process_wallets demo_libs False [Some named_base58, Some named_base64]
     = Inr ([\<lparr>name = ''alice'', publicKey = ''pk-skA'', privateKey = ''skA''\<rparr>],
            [InvalidPrivateKey ''carol'' ''Non-base58 character''])"
  by code_simp

theorem import_format_per_file_witness:
  "truthy (publicKey_field keyonly_base64)
   \<and> privateKey_field keyonly_base64 = SecretText ''skF==''
   \<and> (\<exists>reports.
         shape_wallet demo_libs Keyonly 2 (Some keyonly_base64) =
           Inr (reports,
                Some \<lparr>p_name = ''imported_wallet3'', p_publicKey = ''pk-skF'',
                      p_privateKey = SecretText ''skF''\<rparr>))
   \<and> process_wallets demo_libs False [Some keyonly_base58, Some named_base58, Some keyonly_base64]
     = Inr ([\<lparr>name = ''imported_wallet1'', publicKey = ''pk-skD'', privateKey = ''skD''\<rparr>,
             \<lparr>name = ''alice'', publicKey = ''pk-skA'', privateKey = ''skA''\<rparr>,
             \<lparr>name = ''imported_wallet3'', publicKey = ''pk-skF'', privateKey = ''skF''\<rparr>],
            [])
   \<and> list_all (decodes demo_libs)
         [\<lparr>name = ''imported_wallet1'', publicKey = ''pk-skD'', privateKey = ''skD''\<rparr>,
          \<lparr>name = ''alice'', publicKey = ''pk-skA'', privateKey = ''skA''\<rparr>,
          \<lparr>name = ''imported_wallet3'', publicKey = ''pk-skF'', privateKey = ''skF''\<rparr>]
   \<and> \<not> (truthy (publicKey_field named_no_address)
           \<and> truthy_secret (privateKey_field named_no_address))
   \<and> detect_format [Some named_no_address, Some named_base58] = Unknown"
proof -
  let ?file = "[Some keyonly_base58, Some named_base58, Some keyonly_base64]"
  let ?stored = "[\<lparr>name = ''imported_wallet1'', publicKey = ''pk-skD'', privateKey = ''skD''\<rparr>,
                  \<lparr>name = ''alice'', publicKey = ''pk-skA'', privateKey = ''skA''\<rparr>,
                  \<lparr>name = ''imported_wallet3'', publicKey = ''pk-skF'', privateKey = ''skF''\<rparr>]"
  have h1: "truthy (publicKey_field keyonly_base64)" by code_simp
  have h2: "privateKey_field keyonly_base64 = SecretText ''skF==''"
    by (simp add: keyonly_base64_def)
  have h3: "''skF=='' \<noteq> []" by simp
  have h4: "process_wallets demo_libs False ?file = Inr (?stored, [])" by code_simp
  have n: "truthy (name_field keyonly_base64) = False" by code_simp
  have nt: "''imported_wallet'' @ number_text (2 + 1) = ''imported_wallet3''" by code_simp
  have pk: "the (publicKey_field keyonly_base64) = ''pk-skF''" by (simp add: keyonly_base64_def)
  have key: "(if base64_marked ''skF==''
              then (case base64Decode demo_libs ''skF=='' of
                      Inr bytes \<Rightarrow> bs58_encode demo_libs bytes
                    | Inl message \<Rightarrow> ''skF=='')
              else ''skF=='') = ''skF''"
    by code_simp
  have h5: "\<not> (truthy (publicKey_field named_no_address)
           \<and> truthy_secret (privateKey_field named_no_address))"
    by code_simp
  note t = import_format_per_file
    [of demo_libs False "Some keyonly_base58" "[Some named_base58, Some keyonly_base64]"
        keyonly_base64 "''skF==''" 2 named_no_address "[Some named_base58]" _ ?file ?stored "[]"]
  from t h1 h2 h3 have "\<exists>reports.
         shape_wallet demo_libs Keyonly 2 (Some keyonly_base64) =
           Inr (reports,
                Some \<lparr>p_name = (if truthy (name_field keyonly_base64)
                                then the (name_field keyonly_base64)
                                else ''imported_wallet'' @ number_text (2 + 1)),
                      p_publicKey = the (publicKey_field keyonly_base64),
                      p_privateKey =
                        SecretText (if base64_marked ''skF==''
                                    then (case base64Decode demo_libs ''skF=='' of
                                            Inr bytes \<Rightarrow> bs58_encode demo_libs bytes
                                          | Inl message \<Rightarrow> ''skF=='')
                                    else ''skF=='')\<rparr>)"
    by blast
  then have s: "\<exists>reports.
         shape_wallet demo_libs Keyonly 2 (Some keyonly_base64) =
           Inr (reports,
                Some \<lparr>p_name = ''imported_wallet3'', p_publicKey = ''pk-skF'',
                      p_privateKey = SecretText ''skF''\<rparr>)"
    unfolding key pk nt n by simp
  from t h4 have d: "list_all (decodes demo_libs) ?stored" by blast
  from t h5 have u: "detect_format [Some named_no_address, Some named_base58] = Unknown"
    by blast
  from h1 h2 s h4 d h5 u show ?thesis by (intro conjI)
qed

end
